theory Spec2Isabelle
  imports Main "HOL-Library.Sublist"
begin

section \<open>JavaScript values, objects and strings\<close>

text \<open>
  The module \<^verbatim>\<open>src/shared/jwt.ts\<close> works on JSON-like data: the user record read from
  the database, the claims object placed in the token and the decoded token payload.
  Numbers are modelled as integers (fractional numbers are not modelled), characters
  are 8-bit code units. \<open>JFunction n\<close> is the built-in function named \<open>n\<close>: data
  never holds one, but a property read can reach one through the prototype of an
  object.
\<close>

datatype js_value =
    JUndefined
  | JNull
  | JBool bool
  | JNum int
  | JStr string
  | JArr "js_value list"
  | JObj "(string \<times> js_value) list"
  | JFunction string

text \<open>
  An object is the list of its own properties in enumeration order; every key occurs
  at most once. Array-index keys, which the engine enumerates first, are not
  treated specially: objects built here are compared as mappings (\<open>map_of\<close>).
\<close>

type_synonym object = "(string \<times> js_value) list"

text \<open>\<^verbatim>\<open>obj[k] = v\<close>: an existing key keeps its position, a new key goes last.\<close>

fun obj_set :: "string \<Rightarrow> js_value \<Rightarrow> object \<Rightarrow> object" where
  "obj_set k v [] = [(k, v)]"
| "obj_set k v (p # ps) = (if fst p = k then (k, v) # ps else p # obj_set k v ps)"

text \<open>
  The members every plain object inherits from \<^verbatim>\<open>Object.prototype\<close>: eleven functions
  (\<^verbatim>\<open>constructor\<close> is the function \<^verbatim>\<open>Object\<close>) and the accessor \<^verbatim>\<open>__proto__\<close>, which
  gives the prototype itself, an object without enumerable properties.
\<close>

definition Object_prototype :: "string \<Rightarrow> js_value" where
  "Object_prototype k =
     (if k = ''constructor'' then JFunction ''Object''
      else if k \<in> set [''__defineGetter__'', ''__defineSetter__'', ''hasOwnProperty'',
                        ''__lookupGetter__'', ''__lookupSetter__'', ''isPrototypeOf'',
                        ''propertyIsEnumerable'', ''toString'', ''valueOf'', ''toLocaleString'']
      then JFunction k
      else if k = ''__proto__'' then JObj []
      else JUndefined)"

text \<open>
  \<^verbatim>\<open>obj[k]\<close> on a plain object: the value of the own property, else the inherited member,
  else \<^verbatim>\<open>undefined\<close>.
\<close>

definition obj_get :: "object \<Rightarrow> string \<Rightarrow> js_value" where
  "obj_get obj k = (case map_of obj k of None \<Rightarrow> Object_prototype k | Some v \<Rightarrow> v)"

text \<open>
  An object literal with computed keys and a spread, \<^verbatim>\<open>{[k1]: v1, ..., ...src}\<close>:
  the properties are defined from left to right.
\<close>

definition object_literal :: "(string \<times> js_value) list \<Rightarrow> object" where
  "object_literal entries = foldl (\<lambda>obj (k, v). obj_set k v obj) [] entries"

text \<open>\<^verbatim>\<open>!v\<close>: the values that count as false.\<close>

fun falsy :: "js_value \<Rightarrow> bool" where
  "falsy JUndefined = True"
| "falsy JNull = True"
| "falsy (JBool b) = (\<not> b)"
| "falsy (JNum n) = (n = 0)"
| "falsy (JStr s) = (s = [])"
| "falsy (JArr xs) = False"
| "falsy (JObj kvs) = False"
| "falsy (JFunction n) = False"

text \<open>Decimal digits of a number, as string conversion writes an integer.\<close>

definition digit :: "nat \<Rightarrow> char" where
  "digit d = ''0123456789'' ! d"

fun decimal :: "nat \<Rightarrow> string" where
  "decimal n = (if n < 10 then [digit n] else decimal (n div 10) @ [digit (n mod 10)])"

declare decimal.simps [simp del]

text \<open>
  \<^verbatim>\<open>String(n)\<close> for an integer \<open>n\<close> of magnitude below \<open>10\<^sup>2\<^sup>1\<close>, the range in which
  the conversion writes all the digits (beyond it the engine switches to exponent
  notation, which is not modelled).
\<close>

definition Number_toString :: "int \<Rightarrow> string" where
  "Number_toString i = (if 0 \<le> i then decimal (nat i) else CHR ''-'' # decimal (nat (- i)))"

text \<open>\<^verbatim>\<open>Array.prototype.join\<close> on a list of strings.\<close>

fun join :: "string \<Rightarrow> string list \<Rightarrow> string" where
  "join sep [] = []"
| "join sep [x] = x"
| "join sep (x # y # ys) = x @ sep @ join sep (y # ys)"

text \<open>
  String conversion as a template literal \<^verbatim>\<open>`${e}`\<close> performs it: an array is its
  elements joined by commas, with \<^verbatim>\<open>null\<close> and \<^verbatim>\<open>undefined\<close> elements empty; a
  built-in function is written as V8 prints it.
\<close>

fun ToString :: "js_value \<Rightarrow> string" where
  "ToString JUndefined = ''undefined''"
| "ToString JNull = ''null''"
| "ToString (JBool b) = (if b then ''true'' else ''false'')"
| "ToString (JNum n) = Number_toString n"
| "ToString (JStr s) = s"
| "ToString (JArr xs) =
     join '','' (map (\<lambda>e. if e = JUndefined \<or> e = JNull then [] else ToString e) xs)"
| "ToString (JObj kvs) = ''[object Object]''"
| "ToString (JFunction n) = ''function '' @ n @ ''() { [native code] }''"

text \<open>
  \<^verbatim>\<open>s.replace(pat, rep)\<close> with a string pattern: only the first occurrence of \<open>pat\<close>
  is replaced, wherever it stands. (The module only ever replaces by the empty string,
  so the \<^verbatim>\<open>$\<close> patterns of a replacement string play no role.)
\<close>

fun replace_first :: "string \<Rightarrow> string \<Rightarrow> string \<Rightarrow> string" where
  "replace_first pat rep [] = (if pat = [] then rep else [])"
| "replace_first pat rep (c # cs) =
     (if prefix pat (c # cs) then rep @ drop (length pat) (c # cs)
      else c # replace_first pat rep cs)"

section \<open>Configuration, libraries and the file system\<close>

text \<open>
  The constants of \<^verbatim>\<open>./config\<close> (\<^verbatim>\<open>CONFIG_JWT\<close> and \<^verbatim>\<open>REGISTRATION\<close>) are parameters
  of the model. \<open>KEY\<close> is \<open>None\<close> when the environment variable is not set.
\<close>

record config =
  KEY :: "string option"
  ALGORITHM :: string
  KEY_FILE_PATH :: string
  EXPIRES_IN :: int
  CLAIMS_NAMESPACE :: string
  CUSTOM_FIELDS :: "string list"
  DEFAULT_ANONYMOUS_ROLE :: string
  DEFAULT_USER_ROLE :: string

text \<open>
  The module-level variable \<^verbatim>\<open>jwtKey\<close> holds either the configured secret string or a
  key object of the jose library; \<open>'k\<close> is the type of key objects.
\<close>

datatype 'k jwt_key = KeyString string | KeyObject 'k

record sign_options =
  algorithm :: string
  expiresIn :: string
  subject :: string
  issuer :: string

text \<open>
  What the module imports from outside: lodash's \<^verbatim>\<open>kebabCase\<close>, the built-in
  \<^verbatim>\<open>JSON.stringify\<close> (\<open>None\<close> when it returns \<^verbatim>\<open>undefined\<close>, as it does for a function)
  and the jose library. A jose call that throws returns \<open>None\<close>.
  \<open>JWK_toPEM k p\<close> is \<^verbatim>\<open>k.toPEM(p)\<close>; \<open>JWK_generateSync kty size opts priv\<close> is the key
  that \<^verbatim>\<open>JWK.generateSync(kty, size, opts, priv)\<close> returns at this start of the process.
\<close>

record 'k library =
  kebabCase :: "string \<Rightarrow> string"
  JSON_stringify :: "js_value \<Rightarrow> string option"
  JWK_asKey :: "string \<Rightarrow> string option \<Rightarrow> 'k option"
  JWK_toPEM :: "'k \<Rightarrow> bool \<Rightarrow> string option"
  JWK_generateSync :: "string \<Rightarrow> nat \<Rightarrow> (string \<times> string) list \<Rightarrow> bool \<Rightarrow> 'k"
  JWT_sign :: "object \<Rightarrow> 'k jwt_key \<Rightarrow> sign_options \<Rightarrow> string"
  JWT_verify :: "string \<Rightarrow> 'k jwt_key \<Rightarrow> object option"

text \<open>
  Errors: \<open>Error msg\<close> is \<^verbatim>\<open>new Error(msg)\<close> thrown by the module itself,
  \<open>SystemError path\<close> an error thrown by \<^verbatim>\<open>fs\<close> for that path, \<open>LibraryError\<close> an
  error thrown by an imported function.
\<close>

datatype error = Error string | SystemError string | LibraryError

text \<open>
  The file system: the contents of the readable files, and the paths that can be
  written.
\<close>

record filesystem =
  files :: "string \<rightharpoonup> string"
  writable :: "string \<Rightarrow> bool"

definition readFileSync :: "filesystem \<Rightarrow> string \<Rightarrow> error + string" where
  "readFileSync fs path = (case files fs path of None \<Rightarrow> Inl (SystemError path) | Some d \<Rightarrow> Inr d)"

definition writeFileSync :: "filesystem \<Rightarrow> string \<Rightarrow> string \<Rightarrow> error + filesystem" where
  "writeFileSync fs path d =
     (if writable fs path then Inr (fs\<lparr>files := (files fs)(path \<mapsto> d)\<rparr>)
      else Inl (SystemError path))"

section \<open>The key of the process\<close>

definition RSA_TYPES :: "string list" where
  "RSA_TYPES = [''RS256'', ''RS384'', ''RS512'']"

definition SHA_TYPES :: "string list" where
  "SHA_TYPES = [''HS256'', ''HS384'', ''HS512'']"

text \<open>\<^verbatim>\<open>if (jwtKey)\<close> on the configured key: an unset or empty string counts as no key.\<close>

definition configured_key :: "string option \<Rightarrow> string option" where
  "configured_key k = (case k of None \<Rightarrow> None | Some s \<Rightarrow> if s = [] then None else Some s)"

text \<open>
  The \<^verbatim>\<open>catch\<close> block of the key file: generate a key, then write its PEM to the
  configured path. Neither call is guarded, so an error of either leaves the module's
  initialisation by an exception.
\<close>

definition generate_and_write :: "config \<Rightarrow> 'k library \<Rightarrow> filesystem \<Rightarrow> error + ('k jwt_key \<times> filesystem)" where
  "generate_and_write cfg lib fs =
     (let k = JWK_generateSync lib ''RSA'' 2048 [(''alg'', ALGORITHM cfg), (''use'', ''sig'')] True
      in case JWK_toPEM lib k True of
           None \<Rightarrow> Inl LibraryError
         | Some pem \<Rightarrow>
             (case writeFileSync fs (KEY_FILE_PATH cfg) pem of
                Inl e \<Rightarrow> Inl e
              | Inr fs' \<Rightarrow> Inr (KeyObject k, fs')))"

text \<open>
  The top-level statements of the module, which set \<^verbatim>\<open>jwtKey\<close> when the module is
  loaded: the result is the key and the file system afterwards, or the error thrown.
\<close>

definition init_jwtKey :: "config \<Rightarrow> 'k library \<Rightarrow> filesystem \<Rightarrow> error + ('k jwt_key \<times> filesystem)" where
  "init_jwtKey cfg lib fs =
     (if ALGORITHM cfg \<in> set RSA_TYPES then
        (case configured_key (KEY cfg) of
           Some s \<Rightarrow>
             (case JWK_asKey lib s (Some (ALGORITHM cfg)) of
                None \<Rightarrow> Inl (Error ''Invalid RSA private key in the JWT_KEY environment variable.'')
              | Some k \<Rightarrow>
                  (case JWK_toPEM lib k True of
                     None \<Rightarrow> Inl (Error ''Invalid RSA private key in the JWT_KEY environment variable.'')
                   | Some pem \<Rightarrow> Inr (KeyObject k, fs)))
         | None \<Rightarrow>
             (case readFileSync fs (KEY_FILE_PATH cfg) of
                Inl e \<Rightarrow> generate_and_write cfg lib fs
              | Inr file \<Rightarrow>
                  (case JWK_asKey lib file None of
                     None \<Rightarrow> generate_and_write cfg lib fs
                   | Some k \<Rightarrow> Inr (KeyObject k, fs))))
      else if ALGORITHM cfg \<in> set SHA_TYPES then
        (case configured_key (KEY cfg) of
           None \<Rightarrow> Inl (Error ''Empty JWT secret key.'')
         | Some s \<Rightarrow> Inr (KeyString s, fs))
      else Inl (Error (''Invalid JWT algorithm: '' @ ALGORITHM cfg)))"

section \<open>Permission variables\<close>

record account_role =
  role :: string

text \<open>
  The user record: its identifier, the anonymous flag and the other columns read from
  the database. \<open>user_prop u c\<close> is \<^verbatim>\<open>user[c]\<close>: an own property, or a member
  inherited from \<^verbatim>\<open>Object.prototype\<close>.
\<close>

record user_data =
  id' :: string
  is_anonymous :: bool
  columns :: object

record AccountData =
  default_role :: "string option"
  account_roles :: "account_role list option"
  user :: user_data

definition user_prop :: "user_data \<Rightarrow> string \<Rightarrow> js_value" where
  "user_prop u c =
     (if c = ''id'' then JStr (id' u)
      else if c = ''is_anonymous'' then JBool (is_anonymous u)
      else obj_get (columns u) c)"

definition toPgArray :: "js_value list \<Rightarrow> string" where
  "toPgArray arr = ''{'' @ join '','' (map (\<lambda>e. [CHR 0x22] @ ToString e @ [CHR 0x22]) arr) @ ''}''"

text \<open>
  \<^verbatim>\<open>user.is_anonymous ? DEFAULT_ANONYMOUS_ROLE : default_role || DEFAULT_USER_ROLE\<close>:
  an empty \<^verbatim>\<open>default_role\<close> is false for \<^verbatim>\<open>||\<close>.
\<close>

definition effective_role :: "config \<Rightarrow> AccountData \<Rightarrow> string" where
  "effective_role cfg acct =
     (if is_anonymous (user acct) then DEFAULT_ANONYMOUS_ROLE cfg
      else (case default_role acct of
              None \<Rightarrow> DEFAULT_USER_ROLE cfg
            | Some r \<Rightarrow> if r = [] then DEFAULT_USER_ROLE cfg else r))"

text \<open>\<^verbatim>\<open>account_roles.map(({ role: roleName }) => roleName)\<close>, with the default \<^verbatim>\<open>[]\<close>.\<close>

definition role_names :: "AccountData \<Rightarrow> string list" where
  "role_names acct = map role (case account_roles acct of None \<Rightarrow> [] | Some rs \<Rightarrow> rs)"

text \<open>The role is pushed to the role names when they do not include it.\<close>

definition allowed_roles :: "config \<Rightarrow> AccountData \<Rightarrow> string list" where
  "allowed_roles cfg acct =
     (let accountRoles = role_names acct
      in if effective_role cfg acct \<notin> set accountRoles
         then accountRoles @ [effective_role cfg acct]
         else accountRoles)"

text \<open>The result of \<^verbatim>\<open>JSON.stringify(v)\<close> as a value: a string or \<^verbatim>\<open>undefined\<close>.\<close>

definition stringified :: "'k library \<Rightarrow> js_value \<Rightarrow> js_value" where
  "stringified lib v = (case JSON_stringify lib v of None \<Rightarrow> JUndefined | Some s \<Rightarrow> JStr s)"

text \<open>
  The value a custom field gets in the body of the \<^verbatim>\<open>reduce\<close> callback; in the last
  branch \<^verbatim>\<open>user[cursor] ?? null\<close> replaces \<^verbatim>\<open>undefined\<close> (and \<^verbatim>\<open>null\<close>) by \<^verbatim>\<open>null\<close>.
\<close>

definition custom_value :: "'k library \<Rightarrow> user_data \<Rightarrow> string \<Rightarrow> js_value" where
  "custom_value lib u cursor =
     (case user_prop u cursor of
        JStr s \<Rightarrow> JStr s
      | JArr xs \<Rightarrow> JStr (toPgArray xs)
      | JUndefined \<Rightarrow> stringified lib JNull
      | v \<Rightarrow> stringified lib v)"

definition custom_fields :: "config \<Rightarrow> 'k library \<Rightarrow> user_data \<Rightarrow> string \<Rightarrow> object" where
  "custom_fields cfg lib u pfx =
     foldl (\<lambda>aggr cursor. obj_set (pfx @ kebabCase lib cursor) (custom_value lib u cursor) aggr)
       [] (CUSTOM_FIELDS cfg)"

definition generatePermissionVariables :: "config \<Rightarrow> 'k library \<Rightarrow> AccountData \<Rightarrow> bool \<Rightarrow> object" where
  "generatePermissionVariables cfg lib acct jwt =
     (let pfx = (if jwt then ''x-hasura-'' else [])
      in object_literal
           ([(pfx @ ''user-id'', JStr (id' (user acct))),
             (pfx @ ''allowed-roles'', JArr (map JStr (allowed_roles cfg acct))),
             (pfx @ ''default-role'', JStr (effective_role cfg acct))]
            @ custom_fields cfg lib (user acct) pfx))"

section \<open>Key store, signing and verification\<close>

text \<open>A key store is the list of its keys; \<^verbatim>\<open>add\<close> puts a key in once.\<close>

type_synonym 'k key_store = "'k jwt_key list"

definition KeyStore_add :: "'k jwt_key \<Rightarrow> 'k key_store \<Rightarrow> 'k key_store" where
  "KeyStore_add k ks = (if k \<in> set ks then ks else ks @ [k])"

definition getJwkStore :: "config \<Rightarrow> 'k jwt_key \<Rightarrow> error + 'k key_store" where
  "getJwkStore cfg jwtKey =
     (if ALGORITHM cfg \<in> set RSA_TYPES then Inr (KeyStore_add jwtKey [])
      else Inl (Error ''JWKS is not implemented on this server.''))"


text \<open>The body of the \<^verbatim>\<open>try\<close> block of \<^verbatim>\<open>getClaims\<close>, with whatever it throws.\<close>

definition try_claims :: "config \<Rightarrow> 'k library \<Rightarrow> 'k jwt_key \<Rightarrow> string \<Rightarrow> error + js_value" where
  "try_claims cfg lib jwtKey token =
     (case JWT_verify lib token jwtKey of
        None \<Rightarrow> Inl LibraryError
      | Some decodedToken \<Rightarrow>
          if falsy (obj_get decodedToken (CLAIMS_NAMESPACE cfg))
          then Inl (Error ''Claims namespace not found.'')
          else Inr (obj_get decodedToken (CLAIMS_NAMESPACE cfg)))"

text \<open>
  The \<^verbatim>\<open>try\<close> statement: the \<^verbatim>\<open>catch\<close> clause replaces every error thrown in the
  block by its own.
\<close>

definition verify_token :: "config \<Rightarrow> 'k library \<Rightarrow> 'k jwt_key \<Rightarrow> string \<Rightarrow> error + js_value" where
  "verify_token cfg lib jwtKey token =
     (case try_claims cfg lib jwtKey token of
        Inl err \<Rightarrow> Inl (Error ''Invalid or expired JWT token.'')
      | Inr claims \<Rightarrow> Inr claims)"

definition getClaims :: "config \<Rightarrow> 'k library \<Rightarrow> 'k jwt_key \<Rightarrow> string option \<Rightarrow> error + js_value" where
  "getClaims cfg lib jwtKey authorization =
     (case authorization of
        None \<Rightarrow> Inl (Error ''Missing Authorization header.'')
      | Some a \<Rightarrow>
          if a = [] then Inl (Error ''Missing Authorization header.'')
          else verify_token cfg lib jwtKey (replace_first ''Bearer '' [] a))"



section \<open>Example inputs\<close>

text \<open>
  A configuration with an asymmetric algorithm and no key in the environment, the
  account of a registered user, and test doubles for the imported functions: the
  double of \<^verbatim>\<open>JWT.verify\<close> accepts one token and decodes it to the payload that was
  signed, with the subject and issuer the signing options add.
\<close>

definition example_config :: config where
  "example_config =
     \<lparr>KEY = None, ALGORITHM = ''RS256'', KEY_FILE_PATH = ''custom-keys/private.pem'',
      EXPIRES_IN = 15, CLAIMS_NAMESPACE = ''https://hasura.io/jwt/claims'',
      CUSTOM_FIELDS = [''firstName''], DEFAULT_ANONYMOUS_ROLE = ''anonymous'',
      DEFAULT_USER_ROLE = ''user''\<rparr>"

definition example_account :: AccountData where
  "example_account =
     \<lparr>default_role = Some ''user'',
      account_roles = Some [\<lparr>role = ''user''\<rparr>, \<lparr>role = ''editor''\<rparr>],
      user = \<lparr>id' = ''u1'', is_anonymous = False, columns = [(''firstName'', JStr ''Ann'')]\<rparr>\<rparr>"

definition example_claims :: object where
  "example_claims =
     [(''x-hasura-user-id'', JStr ''u1''),
      (''x-hasura-allowed-roles'', JArr [JStr ''user'', JStr ''editor'']),
      (''x-hasura-default-role'', JStr ''user''),
      (''x-hasura-first-name'', JStr ''Ann'')]"

definition example_library :: "nat library" where
  "example_library =
     \<lparr>kebabCase = (\<lambda>s. if s = ''firstName'' then ''first-name'' else s),
      JSON_stringify = (\<lambda>v. case v of JFunction n \<Rightarrow> None | _ \<Rightarrow> Some ''null''),
      JWK_asKey = (\<lambda>d alg. None),
      JWK_toPEM = (\<lambda>k p. Some ''PEM''),
      JWK_generateSync = (\<lambda>kty size opts priv. 7),
      JWT_sign = (\<lambda>payload k opts. ''header.payload.signature''),
      JWT_verify = (\<lambda>token k.
        if token = ''header.payload.signature''
        then Some [(''https://hasura.io/jwt/claims'', JObj example_claims),
                   (''sub'', JStr ''u1''), (''iss'', JStr ''nhost'')]
        else None)\<rparr>"









section \<open>Objects: assignment and lookup\<close>

lemma map_of_obj_set: "map_of (obj_set k v ob) = (map_of ob)(k \<mapsto> v)"
  by (induction ob) (auto simp: fun_eq_iff)

lemma keys_obj_set: "set (map fst (obj_set k v ob)) = insert k (set (map fst ob))"
  by (induction ob) auto

lemma distinct_obj_set: "distinct (map fst ob) \<Longrightarrow> distinct (map fst (obj_set k v ob))"
proof (induction ob)
  case Nil
  then show ?case by simp
next
  case (Cons p ps)
  have "fst p \<notin> set (map fst (obj_set k v ps))" if "fst p \<noteq> k"
    using that Cons.prems by (simp only: keys_obj_set) auto
  with Cons show ?case by auto
qed


lemma distinct_foldl_obj_set:
  "distinct (map fst ob) \<Longrightarrow> distinct (map fst (foldl (\<lambda>obj (k, v). obj_set k v obj) ob es))"
  by (induction es arbitrary: ob) (auto simp: distinct_obj_set split: prod.splits)

lemma distinct_object_literal: "distinct (map fst (object_literal es))"
  by (simp add: object_literal_def distinct_foldl_obj_set)

lemma map_of_foldl_obj_set:
  "map_of (foldl (\<lambda>obj (k, v). obj_set k v obj) ob es) = map_of ob ++ map_of (rev es)"
proof (induction es arbitrary: ob)
  case Nil
  then show ?case by simp
next
  case (Cons e es)
  obtain k v where e: "e = (k, v)" by (cases e)
  show ?case
    by (simp add: e Cons.IH map_of_obj_set map_add_def fun_eq_iff split: option.splits)
qed

lemma map_of_object_literal: "map_of (object_literal es) = map_of (rev es)"
  by (simp add: object_literal_def map_of_foldl_obj_set)



lemma replace_first_prefix: "prefix p s \<Longrightarrow> replace_first p rep s = rep @ drop (length p) s"
  by (cases s) auto


lemma replace_first_absent: "\<not> sublist p s \<Longrightarrow> replace_first p rep s = s"
proof (induction s)
  case Nil
  then show ?case by auto
next
  case (Cons c cs)
  from Cons.prems have "\<not> prefix p (c # cs)" by (auto dest: prefix_imp_sublist)
  moreover from Cons.prems have "\<not> sublist p cs" by (auto simp: sublist_Cons_right)
  ultimately show ?case using Cons.IH by simp
qed

lemma prefix_of_append_short: "prefix p (xs @ ys) \<Longrightarrow> length p \<le> length xs \<Longrightarrow> prefix p xs"
  by (auto simp: prefix_append)

lemma replace_first_at:
  assumes "p \<noteq> []" and "\<not> sublist p (pre @ butlast p)"
  shows "replace_first p rep (pre @ p @ post) = pre @ rep @ post"
  using assms(2)
proof (induction pre)
  case Nil
  then show ?case by (simp add: replace_first_prefix)
next
  case (Cons c cs)
  have no_prefix: "\<not> prefix p (c # cs @ p @ post)"
  proof
    assume pr: "prefix p (c # cs @ p @ post)"
    have len: "length p \<le> length ((c # cs) @ butlast p)" by simp
    have "(c # cs @ p @ post) = ((c # cs) @ butlast p) @ (last p # post)"
      using assms(1) by simp
    with pr have "prefix p (((c # cs) @ butlast p) @ (last p # post))" by simp
    then have "prefix p ((c # cs) @ butlast p)"
      using len by (rule prefix_of_append_short)
    with Cons.prems show False by (auto dest: prefix_imp_sublist)
  qed
  from Cons.prems have "\<not> sublist p (cs @ butlast p)" by (auto simp: sublist_Cons_right)
  with Cons.IH no_prefix show ?case by simp
qed

section \<open>The key prefix\<close>









section \<open>Looking up a permission variable\<close>

lemma custom_fields_entries:
  "custom_fields cfg lib u p =
   object_literal (map (\<lambda>c. (p @ kebabCase lib c, custom_value lib u c)) (CUSTOM_FIELDS cfg))"
  by (simp add: custom_fields_def object_literal_def foldl_map)

lemma map_of_unique_value:
  assumes "(k, v) \<in> set es" and "\<And>v'. (k, v') \<in> set es \<Longrightarrow> v' = v"
  shows "map_of es k = Some v"
proof (cases "map_of es k")
  case None
  then have "k \<notin> fst ` set es" by (simp add: map_of_eq_None_iff)
  with assms(1) show ?thesis by force
next
  case (Some v')
  then have "(k, v') \<in> set es" by (rule map_of_SomeD)
  then have "v' = v" by (rule assms(2))
  with Some show ?thesis by simp
qed

lemma keys_foldl_obj_set:
  "set (map fst (foldl (\<lambda>obj (k, v). obj_set k v obj) ob es)) = set (map fst ob) \<union> set (map fst es)"
proof (induction es arbitrary: ob)
  case Nil
  then show ?case by simp
next
  case (Cons e es)
  obtain k v where e: "e = (k, v)" by (cases e)
  show ?case unfolding e by (simp add: Cons.IH keys_obj_set del: set_map)
qed

lemma keys_object_literal: "set (map fst (object_literal es)) = set (map fst es)"
  by (simp add: object_literal_def keys_foldl_obj_set del: set_map)

lemma map_of_rev_distinct: "distinct (map fst xs) \<Longrightarrow> map_of (rev xs) = map_of xs"
proof (induction xs)
  case Nil
  then show ?case by simp
next
  case (Cons x xs)
  from Cons.prems have "fst x \<notin> fst ` set (rev xs)" by simp
  then have none: "map_of (rev xs) (fst x) = None" by (simp add: map_of_eq_None_iff)
  from Cons have IH: "map_of (rev xs) = map_of xs" by simp
  show ?case
  proof
    fix k
    show "map_of (rev (x # xs)) k = map_of (x # xs) k"
      using none IH by (cases x) (simp add: map_add_def split: option.splits)
  qed
qed

lemma map_of_custom_fields:
  "map_of (rev (custom_fields cfg lib u p)) =
   map_of (rev (map (\<lambda>c. (p @ kebabCase lib c, custom_value lib u c)) (CUSTOM_FIELDS cfg)))"
proof -
  have "distinct (map fst (custom_fields cfg lib u p))"
    unfolding custom_fields_entries by (rule distinct_object_literal)
  then have "map_of (rev (custom_fields cfg lib u p)) = map_of (custom_fields cfg lib u p)"
    by (rule map_of_rev_distinct)
  also have "\<dots> = map_of (rev (map (\<lambda>c. (p @ kebabCase lib c, custom_value lib u c)) (CUSTOM_FIELDS cfg)))"
    unfolding custom_fields_entries by (rule map_of_object_literal)
  finally show ?thesis .
qed

lemma map_of_literal_with_custom_fields:
  "map_of (object_literal (es @ custom_fields cfg lib u p)) k =
     (case map_of (rev (map (\<lambda>c. (p @ kebabCase lib c, custom_value lib u c)) (CUSTOM_FIELDS cfg))) k of
        None \<Rightarrow> map_of (rev es) k
      | Some v \<Rightarrow> Some v)"
  by (simp add: map_of_object_literal map_of_custom_fields map_add_def)

lemma lookup_before_custom_fields:
  assumes "\<forall>c\<in>set (CUSTOM_FIELDS cfg). kebabCase lib c \<noteq> k"
  shows "map_of (object_literal (es @ custom_fields cfg lib u p)) (p @ k) = map_of (rev es) (p @ k)"
proof -
  have "p @ k \<notin> fst ` set (rev (map (\<lambda>c. (p @ kebabCase lib c, custom_value lib u c)) (CUSTOM_FIELDS cfg)))"
    using assms by auto
  then have "map_of (rev (map (\<lambda>c. (p @ kebabCase lib c, custom_value lib u c)) (CUSTOM_FIELDS cfg))) (p @ k) = None"
    unfolding map_of_eq_None_iff .
  then show ?thesis by (simp only: map_of_literal_with_custom_fields option.case)
qed

lemma lookup_custom_field:
  assumes "c \<in> set (CUSTOM_FIELDS cfg)"
      and "\<And>c'. c' \<in> set (CUSTOM_FIELDS cfg) \<Longrightarrow> kebabCase lib c' = kebabCase lib c \<Longrightarrow>
             custom_value lib u c' = custom_value lib u c"
  shows "map_of (object_literal (es @ custom_fields cfg lib u p)) (p @ kebabCase lib c) =
         Some (custom_value lib u c)"
proof -
  let ?entries = "rev (map (\<lambda>c. (p @ kebabCase lib c, custom_value lib u c)) (CUSTOM_FIELDS cfg))"
  have "(p @ kebabCase lib c, custom_value lib u c) \<in> set ?entries"
    using assms(1) by auto
  moreover have "v' = custom_value lib u c" if "(p @ kebabCase lib c, v') \<in> set ?entries" for v'
    using that assms(2) by auto
  ultimately have "map_of ?entries (p @ kebabCase lib c) = Some (custom_value lib u c)"
    by (rule map_of_unique_value)
  then show ?thesis by (simp only: map_of_literal_with_custom_fields option.case)
qed

lemma base_permission_variable:
  assumes "\<forall>c\<in>set (CUSTOM_FIELDS cfg). kebabCase lib c \<noteq> k"
  shows "map_of (generatePermissionVariables cfg lib acct jwt) ((if jwt then ''x-hasura-'' else []) @ k) =
         map_of [(''default-role'', JStr (effective_role cfg acct)),
                 (''allowed-roles'', JArr (map JStr (allowed_roles cfg acct))),
                 (''user-id'', JStr (id' (user acct)))] k"
  unfolding generatePermissionVariables_def Let_def
  by (simp only: lookup_before_custom_fields [OF assms]) simp

lemma default_role_variable:
  assumes "\<forall>c\<in>set (CUSTOM_FIELDS cfg). kebabCase lib c \<noteq> ''default-role''"
  shows "map_of (generatePermissionVariables cfg lib acct jwt)
           ((if jwt then ''x-hasura-'' else []) @ ''default-role'') = Some (JStr (effective_role cfg acct))"
  by (simp only: base_permission_variable [OF assms]) simp

lemma allowed_roles_variable:
  assumes "\<forall>c\<in>set (CUSTOM_FIELDS cfg). kebabCase lib c \<noteq> ''allowed-roles''"
  shows "map_of (generatePermissionVariables cfg lib acct jwt)
           ((if jwt then ''x-hasura-'' else []) @ ''allowed-roles'') =
         Some (JArr (map JStr (allowed_roles cfg acct)))"
  by (simp only: base_permission_variable [OF assms]) simp

section \<open>Written tokens read back\<close>







section \<open>Issuing a token and reading it back\<close>



section \<open>Reading the Authorization header\<close>

text \<open>
  C7. For an absent Authorization header \<open>getClaims\<close> fails with the error
  \<^verbatim>\<open>Missing Authorization header.\<close>, which is not the error
  \<^verbatim>\<open>Invalid or expired JWT token.\<close> of a failed verification.
\<close>

theorem getClaims_absent_header:
  "getClaims cfg lib jwtKey None = Inl (Error ''Missing Authorization header.'')
   \<and> getClaims cfg lib jwtKey None \<noteq> Inl (Error ''Invalid or expired JWT token.'')"
  by (simp add: getClaims_def)

theorem getClaims_absent_header_example:
  "getClaims example_config example_library (KeyObject 7) None =
     Inl (Error ''Missing Authorization header.'')"
  using getClaims_absent_header [of example_config example_library "KeyObject 7"] by simp

section \<open>The effective role and the allowed roles\<close>

text \<open>
  C4 (as the code has it). The allowed roles are the role names of \<^verbatim>\<open>account_roles\<close> in
  their order; the effective role is appended once at the end when it is absent from
  them, and when it is present the list is left as it is. So the effective role always
  occurs in \<^verbatim>\<open>allowed-roles\<close>, as often as in \<^verbatim>\<open>account_roles\<close> and at least once:
  exactly once whenever \<^verbatim>\<open>account_roles\<close> names it at most once. The list is the value
  of the \<^verbatim>\<open>allowed-roles\<close> variable unless a custom field takes that key.
\<close>

theorem allowed_roles_effective_role:
  "effective_role cfg acct \<in> set (allowed_roles cfg acct)
   \<and> (effective_role cfg acct \<notin> set (role_names acct) \<longrightarrow>
        allowed_roles cfg acct = role_names acct @ [effective_role cfg acct])
   \<and> (effective_role cfg acct \<in> set (role_names acct) \<longrightarrow>
        allowed_roles cfg acct = role_names acct)
   \<and> count_list (allowed_roles cfg acct) (effective_role cfg acct) =
        max 1 (count_list (role_names acct) (effective_role cfg acct))
   \<and> (count_list (role_names acct) (effective_role cfg acct) \<le> 1 \<longrightarrow>
        count_list (allowed_roles cfg acct) (effective_role cfg acct) = 1)
   \<and> ((\<forall>c\<in>set (CUSTOM_FIELDS cfg). kebabCase lib c \<noteq> ''allowed-roles'') \<longrightarrow>
        map_of (generatePermissionVariables cfg lib acct jwt)
          ((if jwt then ''x-hasura-'' else []) @ ''allowed-roles'') =
        Some (JArr (map JStr (allowed_roles cfg acct))))"
proof -
  let ?r = "effective_role cfg acct"
  let ?rs = "role_names acct"
  have absent: "allowed_roles cfg acct = ?rs @ [?r]" if "?r \<notin> set ?rs"
    using that by (simp add: allowed_roles_def)
  have present: "allowed_roles cfg acct = ?rs" if "?r \<in> set ?rs"
    using that by (simp add: allowed_roles_def)
  have member: "?r \<in> set (allowed_roles cfg acct)"
    by (cases "?r \<in> set ?rs") (simp_all add: absent present)
  have count: "count_list (allowed_roles cfg acct) ?r = max 1 (count_list ?rs ?r)"
  proof (cases "?r \<in> set ?rs")
    case True
    with count_list_0_iff [of ?rs ?r] have "0 < count_list ?rs ?r" by simp
    with True show ?thesis by (simp add: present)
  next
    case False
    then show ?thesis by (simp add: absent)
  qed
  have once: "count_list (allowed_roles cfg acct) ?r = 1" if "count_list ?rs ?r \<le> 1"
    using that count by simp
  from absent present member count once allowed_roles_variable [of cfg lib acct jwt]
  show ?thesis by blast
qed

theorem allowed_roles_effective_role_example:
  "allowed_roles example_config example_account = [''user'', ''editor'']
   \<and> count_list (allowed_roles example_config example_account) ''user'' = 1
   \<and> allowed_roles example_config (example_account\<lparr>default_role := Some ''admin''\<rparr>) =
       [''user'', ''editor'', ''admin'']
   \<and> map_of (generatePermissionVariables example_config example_library example_account True)
       ''x-hasura-allowed-roles'' = Some (JArr [JStr ''user'', JStr ''editor''])"
proof -
  have names: "role_names example_account = [''user'', ''editor'']"
    "role_names (example_account\<lparr>default_role := Some ''admin''\<rparr>) = [''user'', ''editor'']"
    by (simp_all add: role_names_def example_account_def)
  have roles: "effective_role example_config example_account = ''user''"
    "effective_role example_config (example_account\<lparr>default_role := Some ''admin''\<rparr>) = ''admin''"
    by (simp_all add: effective_role_def example_account_def example_config_def)
  have free: "\<forall>c\<in>set (CUSTOM_FIELDS example_config). kebabCase example_library c \<noteq> ''allowed-roles''"
    by (simp add: example_config_def example_library_def)
  from allowed_roles_effective_role [of example_config example_account example_library True]
    allowed_roles_effective_role
      [of example_config "example_account\<lparr>default_role := Some ''admin''\<rparr>" example_library True]
    free
  show ?thesis by (simp add: names roles)
qed

text \<open>
  C4 as stated fails: an account whose \<^verbatim>\<open>account_roles\<close> name the effective role twice
  keeps both occurrences.
\<close>

theorem allowed_roles_twice:
  "effective_role example_config
     (example_account\<lparr>account_roles := Some [\<lparr>role = ''user''\<rparr>, \<lparr>role = ''user''\<rparr>]\<rparr>) = ''user''
   \<and> allowed_roles example_config
     (example_account\<lparr>account_roles := Some [\<lparr>role = ''user''\<rparr>, \<lparr>role = ''user''\<rparr>]\<rparr>) =
     [''user'', ''user'']
   \<and> count_list (allowed_roles example_config
        (example_account\<lparr>account_roles := Some [\<lparr>role = ''user''\<rparr>, \<lparr>role = ''user''\<rparr>]\<rparr>)) ''user'' = 2
   \<and> map_of (generatePermissionVariables example_config example_library
        (example_account\<lparr>account_roles := Some [\<lparr>role = ''user''\<rparr>, \<lparr>role = ''user''\<rparr>]\<rparr>) True)
       ''x-hasura-allowed-roles'' = Some (JArr [JStr ''user'', JStr ''user''])"
  by (simp add: generatePermissionVariables_def object_literal_def custom_fields_def
      custom_value_def user_prop_def obj_get_def Object_prototype_def allowed_roles_def role_names_def effective_role_def
      example_config_def example_library_def example_account_def)

text \<open>
  C5 (as the code has it). For an anonymous user the effective role is the configured
  anonymous role, whatever \<^verbatim>\<open>default_role\<close> is. For any other user it is
  \<^verbatim>\<open>default_role\<close> when that is present and not the empty string, and the configured
  default user role when \<^verbatim>\<open>default_role\<close> is absent or empty. The effective role is
  the value of the \<^verbatim>\<open>default-role\<close> variable unless a custom field takes that key.
\<close>

theorem effective_role_resolution:
  "(is_anonymous (user acct) \<longrightarrow> effective_role cfg acct = DEFAULT_ANONYMOUS_ROLE cfg)
   \<and> (\<not> is_anonymous (user acct) \<and> default_role acct = Some r \<and> r \<noteq> [] \<longrightarrow>
        effective_role cfg acct = r)
   \<and> (\<not> is_anonymous (user acct) \<and> (default_role acct = None \<or> default_role acct = Some []) \<longrightarrow>
        effective_role cfg acct = DEFAULT_USER_ROLE cfg)
   \<and> ((\<forall>c\<in>set (CUSTOM_FIELDS cfg). kebabCase lib c \<noteq> ''default-role'') \<longrightarrow>
        map_of (generatePermissionVariables cfg lib acct jwt)
          ((if jwt then ''x-hasura-'' else []) @ ''default-role'') =
        Some (JStr (effective_role cfg acct)))"
proof -
  have "effective_role cfg acct = DEFAULT_ANONYMOUS_ROLE cfg" if "is_anonymous (user acct)"
    using that by (simp add: effective_role_def)
  moreover have "effective_role cfg acct = r"
    if "\<not> is_anonymous (user acct)" and "default_role acct = Some r" and "r \<noteq> []"
    using that by (simp add: effective_role_def)
  moreover have "effective_role cfg acct = DEFAULT_USER_ROLE cfg"
    if "\<not> is_anonymous (user acct)" and "default_role acct = None \<or> default_role acct = Some []"
    using that by (auto simp: effective_role_def)
  ultimately show ?thesis
    using default_role_variable [of cfg lib acct jwt] by blast
qed

theorem effective_role_resolution_example:
  "effective_role example_config
     (example_account\<lparr>user := \<lparr>id' = ''u1'', is_anonymous = True, columns = []\<rparr>\<rparr>) = ''anonymous''
   \<and> effective_role example_config (example_account\<lparr>default_role := Some ''editor''\<rparr>) = ''editor''
   \<and> effective_role example_config (example_account\<lparr>default_role := None\<rparr>) = ''user''
   \<and> map_of (generatePermissionVariables example_config example_library
        (example_account\<lparr>default_role := Some ''editor''\<rparr>) True) ''x-hasura-default-role'' =
      Some (JStr ''editor'')"
proof -
  have free: "\<forall>c\<in>set (CUSTOM_FIELDS example_config). kebabCase example_library c \<noteq> ''default-role''"
    by (simp add: example_config_def example_library_def)
  from effective_role_resolution
      [of "example_account\<lparr>user := \<lparr>id' = ''u1'', is_anonymous = True, columns = []\<rparr>\<rparr>"
          example_config "''editor''" example_library True]
    effective_role_resolution
      [of "example_account\<lparr>default_role := Some ''editor''\<rparr>" example_config "''editor''"
          example_library True]
    effective_role_resolution
      [of "example_account\<lparr>default_role := None\<rparr>" example_config "''editor''" example_library True]
    free
  show ?thesis by (simp add: example_account_def example_config_def)
qed

text \<open>
  C5 as stated fails: a registered user whose \<^verbatim>\<open>default_role\<close> is present and is the
  empty string gets the configured default user role, not \<^verbatim>\<open>default_role\<close>.
\<close>

theorem effective_role_empty_default_role:
  "\<not> is_anonymous (user (example_account\<lparr>default_role := Some []\<rparr>))
   \<and> default_role (example_account\<lparr>default_role := Some []\<rparr>) = Some []
   \<and> effective_role example_config (example_account\<lparr>default_role := Some []\<rparr>) = ''user''
   \<and> effective_role example_config (example_account\<lparr>default_role := Some []\<rparr>) \<noteq> []
   \<and> map_of (generatePermissionVariables example_config example_library
        (example_account\<lparr>default_role := Some []\<rparr>) True) ''x-hasura-default-role'' =
      Some (JStr ''user'')"
  by (simp add: generatePermissionVariables_def object_literal_def custom_fields_def
      custom_value_def user_prop_def obj_get_def Object_prototype_def allowed_roles_def role_names_def effective_role_def
      example_config_def example_library_def example_account_def)

text \<open>
  C9. For a user that is not anonymous and whose \<^verbatim>\<open>default_role\<close> is present but is the
  empty string, the effective role is the configured default user role, the same as
  for the account with \<^verbatim>\<open>default_role\<close> absent; it is the value of the
  \<^verbatim>\<open>default-role\<close> variable unless a custom field takes that key.
\<close>

theorem effective_role_empty_string:
  assumes "\<not> is_anonymous (user acct)" and "default_role acct = Some []"
  shows "effective_role cfg acct = DEFAULT_USER_ROLE cfg
       \<and> effective_role cfg acct = effective_role cfg (acct\<lparr>default_role := None\<rparr>)
       \<and> ((\<forall>c\<in>set (CUSTOM_FIELDS cfg). kebabCase lib c \<noteq> ''default-role'') \<longrightarrow>
            map_of (generatePermissionVariables cfg lib acct jwt)
              ((if jwt then ''x-hasura-'' else []) @ ''default-role'') =
            Some (JStr (DEFAULT_USER_ROLE cfg)))"
proof -
  have role: "effective_role cfg acct = DEFAULT_USER_ROLE cfg"
    using assms by (simp add: effective_role_def)
  moreover have "effective_role cfg (acct\<lparr>default_role := None\<rparr>) = DEFAULT_USER_ROLE cfg"
    using assms(1) by (simp add: effective_role_def)
  ultimately show ?thesis
    using default_role_variable [of cfg lib acct jwt] by simp
qed

theorem effective_role_empty_string_example:
  "effective_role example_config (example_account\<lparr>default_role := Some []\<rparr>) = ''user''
   \<and> map_of (generatePermissionVariables example_config example_library
        (example_account\<lparr>default_role := Some []\<rparr>) False) ''default-role'' = Some (JStr ''user'')"
proof -
  have registered: "\<not> is_anonymous (user (example_account\<lparr>default_role := Some []\<rparr>))"
    by (simp add: example_account_def)
  have empty: "default_role (example_account\<lparr>default_role := Some []\<rparr>) = Some []"
    by simp
  have free: "\<forall>c\<in>set (CUSTOM_FIELDS example_config). kebabCase example_library c \<noteq> ''default-role''"
    by (simp add: example_config_def example_library_def)
  from effective_role_empty_string [OF registered empty, of example_config example_library False] free
  show ?thesis by (simp add: example_config_def)
qed

section \<open>Custom fields\<close>

text \<open>
  C6. A custom field whose value on the user record is a sequence is encoded as the
  string that opens with a brace, lists the elements separated by commas, each between
  double quotes (a string element as it is, any other element as its string
  conversion), and closes with a brace. That string is the value of the field's
  variable when the field is configured and no other configured field has the same
  kebab-case key. In particular \<^verbatim>\<open>["a","b"]\<close> is encoded as \<^verbatim>\<open>{"a","b"}\<close>.
\<close>

theorem custom_field_sequence:
  assumes "user_prop (user acct) cursor = JArr xs"
  shows \<open>custom_value lib (user acct) cursor =
           JStr (''{'' @ join '','' (map (\<lambda>e. ''"'' @ ToString e @ ''"'') xs) @ ''}'')
       \<and> (cursor \<in> set (CUSTOM_FIELDS cfg)
          \<and> (\<forall>c\<in>set (CUSTOM_FIELDS cfg). kebabCase lib c = kebabCase lib cursor \<longrightarrow> c = cursor) \<longrightarrow>
          map_of (generatePermissionVariables cfg lib acct jwt)
            ((if jwt then ''x-hasura-'' else []) @ kebabCase lib cursor) =
          Some (JStr (''{'' @ join '','' (map (\<lambda>e. ''"'' @ ToString e @ ''"'') xs) @ ''}'')))
       \<and> toPgArray [JStr ''a'', JStr ''b''] = ''{"a","b"}''\<close>
proof -
  have encoded: \<open>custom_value lib (user acct) cursor =
      JStr (''{'' @ join '','' (map (\<lambda>e. ''"'' @ ToString e @ ''"'') xs) @ ''}'')\<close>
    by (simp add: custom_value_def assms toPgArray_def)
  have variable: \<open>map_of (generatePermissionVariables cfg lib acct jwt)
        ((if jwt then ''x-hasura-'' else []) @ kebabCase lib cursor) =
      Some (JStr (''{'' @ join '','' (map (\<lambda>e. ''"'' @ ToString e @ ''"'') xs) @ ''}''))\<close>
    if "cursor \<in> set (CUSTOM_FIELDS cfg)
        \<and> (\<forall>c\<in>set (CUSTOM_FIELDS cfg). kebabCase lib c = kebabCase lib cursor \<longrightarrow> c = cursor)"
  proof -
    have "map_of (generatePermissionVariables cfg lib acct jwt)
          ((if jwt then ''x-hasura-'' else []) @ kebabCase lib cursor) =
        Some (custom_value lib (user acct) cursor)"
      unfolding generatePermissionVariables_def Let_def
      using that by (intro lookup_custom_field) auto
    then show ?thesis by (simp only: encoded)
  qed
  have example: \<open>toPgArray [JStr ''a'', JStr ''b''] = ''{"a","b"}''\<close>
    by (simp add: toPgArray_def)
  show ?thesis
    by (intro conjI impI) (rule encoded, erule variable, rule example)
qed

theorem custom_field_sequence_example:
  \<open>custom_value example_library
     (user (example_account\<lparr>user := \<lparr>id' = ''u1'', is_anonymous = False,
        columns = [(''firstName'', JArr [JStr ''a'', JStr ''b''])]\<rparr>\<rparr>)) ''firstName'' =
     JStr ''{"a","b"}''
   \<and> map_of (generatePermissionVariables example_config example_library
        (example_account\<lparr>user := \<lparr>id' = ''u1'', is_anonymous = False,
           columns = [(''firstName'', JArr [JStr ''a'', JStr ''b''])]\<rparr>\<rparr>) True)
       ''x-hasura-first-name'' = Some (JStr ''{"a","b"}'')\<close>
proof -
  let ?acct = "example_account\<lparr>user := \<lparr>id' = ''u1'', is_anonymous = False,
        columns = [(''firstName'', JArr [JStr ''a'', JStr ''b''])]\<rparr>\<rparr>"
  have sequence: "user_prop (user ?acct) ''firstName'' = JArr [JStr ''a'', JStr ''b'']"
    by (simp add: user_prop_def obj_get_def Object_prototype_def)
  have configured: "''firstName'' \<in> set (CUSTOM_FIELDS example_config)
      \<and> (\<forall>c\<in>set (CUSTOM_FIELDS example_config).
      kebabCase example_library c = kebabCase example_library ''firstName'' \<longrightarrow> c = ''firstName'')"
    by (simp add: example_config_def)
  have key: "kebabCase example_library ''firstName'' = ''first-name''"
    by (simp add: example_library_def)
  note fact = custom_field_sequence [OF sequence, of example_library example_config True]
  from fact have encoded: \<open>custom_value example_library (user ?acct) ''firstName'' =
      JStr (''{'' @ join '','' (map (\<lambda>e. ''"'' @ ToString e @ ''"'') [JStr ''a'', JStr ''b'']) @ ''}'')\<close>
    by (rule conjunct1)
  from fact [THEN conjunct2, THEN conjunct1] configured
  have variable: \<open>map_of (generatePermissionVariables example_config example_library ?acct True)
      ((if True then ''x-hasura-'' else []) @ kebabCase example_library ''firstName'') =
      Some (JStr (''{'' @ join '','' (map (\<lambda>e. ''"'' @ ToString e @ ''"'') [JStr ''a'', JStr ''b'']) @ ''}''))\<close>
    by (rule mp)
  from encoded have e: \<open>custom_value example_library (user ?acct) ''firstName'' = JStr ''{"a","b"}''\<close>
    by simp
  from variable have v: \<open>map_of (generatePermissionVariables example_config example_library ?acct True)
       ''x-hasura-first-name'' = Some (JStr ''{"a","b"}'')\<close>
    unfolding key by simp
  from e v show ?thesis by (rule conjI)
qed

section \<open>The public key set\<close>

text \<open>
  C8. \<open>getJwkStore\<close> fails with the error \<^verbatim>\<open>JWKS is not implemented on this server.\<close>
  whenever the configured algorithm is one of HS256, HS384 and HS512, and when the
  algorithm is one of RS256, RS384 and RS512 it returns a key store that holds
  exactly the key of the process.
\<close>

theorem getJwkStore_by_algorithm:
  "(ALGORITHM cfg \<in> set SHA_TYPES \<longrightarrow>
      getJwkStore cfg jwtKey = Inl (Error ''JWKS is not implemented on this server.''))
   \<and> (ALGORITHM cfg \<in> set RSA_TYPES \<longrightarrow> getJwkStore cfg jwtKey = Inr [jwtKey])"
  by (auto simp: getJwkStore_def KeyStore_add_def RSA_TYPES_def SHA_TYPES_def)

theorem getJwkStore_by_algorithm_example:
  "getJwkStore (example_config\<lparr>KEY := Some ''secret'', ALGORITHM := ''HS256''\<rparr>) (KeyString ''secret'') =
     (Inl (Error ''JWKS is not implemented on this server.'') :: error + nat key_store)
   \<and> getJwkStore example_config (KeyObject (7::nat)) = Inr [KeyObject 7]"
proof -
  have symmetric: "ALGORITHM (example_config\<lparr>KEY := Some ''secret'', ALGORITHM := ''HS256''\<rparr>) \<in> set SHA_TYPES"
    by (simp add: SHA_TYPES_def)
  have asymmetric: "ALGORITHM example_config \<in> set RSA_TYPES"
    by (simp add: RSA_TYPES_def example_config_def)
  from getJwkStore_by_algorithm
      [of "example_config\<lparr>KEY := Some ''secret'', ALGORITHM := ''HS256''\<rparr>"
          "KeyString ''secret'' :: nat jwt_key"]
    getJwkStore_by_algorithm [of example_config "KeyObject (7::nat)"]
    symmetric asymmetric
  show ?thesis by simp
qed

section \<open>Generating the key file\<close>

text \<open>
  C3 (as the code has it). With an asymmetric algorithm, no key configured and a key
  file that cannot be read, the module generates a 2048-bit RSA private key tagged
  with the algorithm and the use \<^verbatim>\<open>sig\<close>, and writes its PEM to the configured path.
  When the file can be written, the generated key is the key of the process and the
  file holds its PEM. When the file cannot be written, loading the module fails with
  the error of the write: no key is available.
\<close>

theorem init_jwtKey_generates:
  assumes "ALGORITHM cfg \<in> set RSA_TYPES"
      and "configured_key (KEY cfg) = None"
      and "readFileSync fs (KEY_FILE_PATH cfg) = Inl e"
      and "JWK_toPEM lib
             (JWK_generateSync lib ''RSA'' 2048 [(''alg'', ALGORITHM cfg), (''use'', ''sig'')] True)
             True = Some pem"
  shows "(writable fs (KEY_FILE_PATH cfg) \<longrightarrow>
            init_jwtKey cfg lib fs =
              Inr (KeyObject (JWK_generateSync lib ''RSA'' 2048
                               [(''alg'', ALGORITHM cfg), (''use'', ''sig'')] True),
                   fs\<lparr>files := (files fs)(KEY_FILE_PATH cfg \<mapsto> pem)\<rparr>))
       \<and> (\<not> writable fs (KEY_FILE_PATH cfg) \<longrightarrow>
            init_jwtKey cfg lib fs = Inl (SystemError (KEY_FILE_PATH cfg)))"
  using assms by (simp add: init_jwtKey_def generate_and_write_def writeFileSync_def)

theorem init_jwtKey_generates_example:
  "init_jwtKey example_config example_library \<lparr>files = Map.empty, writable = (\<lambda>p. True)\<rparr> =
     Inr (KeyObject 7,
          \<lparr>files = [''custom-keys/private.pem'' \<mapsto> ''PEM''], writable = (\<lambda>p. True)\<rparr>)
   \<and> init_jwtKey example_config example_library \<lparr>files = Map.empty, writable = (\<lambda>p. False)\<rparr> =
     Inl (SystemError ''custom-keys/private.pem'')"
proof -
  have asymmetric: "ALGORITHM example_config \<in> set RSA_TYPES"
    by (simp add: RSA_TYPES_def example_config_def)
  have no_key: "configured_key (KEY example_config) = None"
    by (simp add: configured_key_def example_config_def)
  have unreadable:
    "readFileSync \<lparr>files = Map.empty, writable = w\<rparr> (KEY_FILE_PATH example_config) =
       Inl (SystemError ''custom-keys/private.pem'')" for w
    by (simp add: readFileSync_def example_config_def)
  have pem: "JWK_toPEM example_library
      (JWK_generateSync example_library ''RSA'' 2048
         [(''alg'', ALGORITHM example_config), (''use'', ''sig'')] True) True = Some ''PEM''"
    by (simp add: example_library_def)
  from init_jwtKey_generates [OF asymmetric no_key unreadable pem, of "\<lambda>p. True"]
    init_jwtKey_generates [OF asymmetric no_key unreadable pem, of "\<lambda>p. False"]
  show ?thesis by (simp add: example_config_def example_library_def)
qed

text \<open>
  C3 as stated fails: when the key file can be neither read nor written, the
  initialisation ends with the error of the write instead of a key.
\<close>

theorem init_jwtKey_write_failure:
  "ALGORITHM example_config \<in> set RSA_TYPES
   \<and> configured_key (KEY example_config) = None
   \<and> readFileSync \<lparr>files = Map.empty, writable = (\<lambda>p. False)\<rparr> (KEY_FILE_PATH example_config) =
       Inl (SystemError ''custom-keys/private.pem'')
   \<and> init_jwtKey example_config example_library \<lparr>files = Map.empty, writable = (\<lambda>p. False)\<rparr> =
       Inl (SystemError ''custom-keys/private.pem'')"
  by (simp add: init_jwtKey_def generate_and_write_def writeFileSync_def readFileSync_def
      configured_key_def RSA_TYPES_def example_config_def example_library_def)

section \<open>Errors of verification\<close>

text \<open>
  The error \<^verbatim>\<open>Claims namespace not found.\<close> is thrown inside the \<^verbatim>\<open>try\<close> block, so the
  \<^verbatim>\<open>catch\<close> clause replaces it: \<open>getClaims\<close> fails with one of two errors only.
\<close>

lemma verify_token_error:
  "verify_token cfg lib jwtKey token = Inl err \<Longrightarrow> err = Error ''Invalid or expired JWT token.''"
  by (auto simp: verify_token_def split: sum.splits)

lemma getClaims_errors:
  "getClaims cfg lib jwtKey authorization = Inl err \<Longrightarrow>
   err = Error ''Missing Authorization header.'' \<or> err = Error ''Invalid or expired JWT token.''"
  by (auto simp: getClaims_def split: option.splits if_splits dest: verify_token_error)

lemma getClaims_namespace_missing:
  assumes "authorization \<noteq> []"
      and "JWT_verify lib (replace_first ''Bearer '' [] authorization) jwtKey = Some decodedToken"
      and "falsy (obj_get decodedToken (CLAIMS_NAMESPACE cfg))"
  shows "getClaims cfg lib jwtKey (Some authorization) = Inl (Error ''Invalid or expired JWT token.'')"
  using assms by (simp add: getClaims_def verify_token_def try_claims_def)

text \<open>
  C2 (the code differs). A token that the library verifies, decoded to a payload
  with subject and issuer but no entry at the claims-namespace key: the \<^verbatim>\<open>try\<close> block
  throws \<^verbatim>\<open>Claims namespace not found.\<close>, and \<open>getClaims\<close> fails with
  \<^verbatim>\<open>Invalid or expired JWT token.\<close>, the error of a failed verification.
\<close>

theorem getClaims_missing_namespace:
  "JWT_verify
     (example_library\<lparr>JWT_verify := (\<lambda>token k.
        if token = ''header.payload.signature''
        then Some [(''sub'', JStr ''u1''), (''iss'', JStr ''nhost'')] else None)\<rparr>)
     ''header.payload.signature'' (KeyObject 7) =
     Some [(''sub'', JStr ''u1''), (''iss'', JStr ''nhost'')]
   \<and> try_claims example_config
     (example_library\<lparr>JWT_verify := (\<lambda>token k.
        if token = ''header.payload.signature''
        then Some [(''sub'', JStr ''u1''), (''iss'', JStr ''nhost'')] else None)\<rparr>)
     (KeyObject 7) ''header.payload.signature'' = Inl (Error ''Claims namespace not found.'')
   \<and> getClaims example_config
     (example_library\<lparr>JWT_verify := (\<lambda>token k.
        if token = ''header.payload.signature''
        then Some [(''sub'', JStr ''u1''), (''iss'', JStr ''nhost'')] else None)\<rparr>)
     (KeyObject 7) (Some ''Bearer header.payload.signature'') =
     Inl (Error ''Invalid or expired JWT token.'')"
  by (simp add: getClaims_def verify_token_def try_claims_def obj_get_def Object_prototype_def example_config_def)

section \<open>The token of a header\<close>

text \<open>
  C10 (as the code has it). For every Authorization header that is present and not
  the empty string, the token passed to verification is the header with the first
  occurrence of \<^verbatim>\<open>Bearer \<close> removed, wherever it stands: a header without that
  substring is verified as it is, and in a header \<open>pre @ ''Bearer '' @ post\<close> where no
  occurrence starts earlier, the token is \<open>pre @ post\<close>.
\<close>

theorem getClaims_bearer_token:
  assumes "a \<noteq> []"
  shows "getClaims cfg lib jwtKey (Some a) = verify_token cfg lib jwtKey (replace_first ''Bearer '' [] a)
       \<and> (\<not> sublist ''Bearer '' a \<longrightarrow> replace_first ''Bearer '' [] a = a)
       \<and> (\<forall>pre post. a = pre @ ''Bearer '' @ post \<and> \<not> sublist ''Bearer '' (pre @ ''Bearer'') \<longrightarrow>
            replace_first ''Bearer '' [] a = pre @ post)"
proof -
  have "getClaims cfg lib jwtKey (Some a) = verify_token cfg lib jwtKey (replace_first ''Bearer '' [] a)"
    using assms by (simp add: getClaims_def)
  moreover have "replace_first ''Bearer '' [] a = a" if "\<not> sublist ''Bearer '' a"
    using that by (rule replace_first_absent)
  moreover have "replace_first ''Bearer '' [] a = pre @ post"
    if "a = pre @ ''Bearer '' @ post" and "\<not> sublist ''Bearer '' (pre @ ''Bearer'')" for pre post
  proof -
    have "\<not> sublist ''Bearer '' (pre @ butlast ''Bearer '')" using that(2) by simp
    with replace_first_at [of "''Bearer ''" pre "[]" post] show ?thesis
      unfolding that(1) by simp
  qed
  ultimately show ?thesis by blast
qed

theorem getClaims_bearer_token_example:
  "getClaims example_config example_library (KeyObject 7) (Some ''Bearer header.payload.signature'') =
     Inr (JObj example_claims)
   \<and> getClaims example_config example_library (KeyObject 7) (Some ''header.Bearer payload.signature'') =
     Inr (JObj example_claims)
   \<and> getClaims example_config example_library (KeyObject 7) (Some ''Token abc'') =
     verify_token example_config example_library (KeyObject 7) ''Token abc''"
proof -
  note fact = getClaims_bearer_token [of _ example_config example_library "KeyObject 7"]
  have accepted: "verify_token example_config example_library (KeyObject 7) ''header.payload.signature'' =
      Inr (JObj example_claims)"
    by (simp add: verify_token_def try_claims_def obj_get_def Object_prototype_def example_config_def example_library_def)
  have first: "getClaims example_config example_library (KeyObject 7)
      (Some ''Bearer header.payload.signature'') = Inr (JObj example_claims)"
  proof -
    have here: "''Bearer header.payload.signature'' = [] @ ''Bearer '' @ ''header.payload.signature''
        \<and> \<not> sublist ''Bearer '' ([] @ ''Bearer'')"
      by code_simp
    have "''Bearer header.payload.signature'' \<noteq> []" by simp
    from fact [OF this] here
    have "getClaims example_config example_library (KeyObject 7) (Some ''Bearer header.payload.signature'') =
        verify_token example_config example_library (KeyObject 7) ([] @ ''header.payload.signature'')"
      by metis
    with accepted show ?thesis by simp
  qed
  have inside: "getClaims example_config example_library (KeyObject 7)
      (Some ''header.Bearer payload.signature'') = Inr (JObj example_claims)"
  proof -
    have here: "''header.Bearer payload.signature'' = ''header.'' @ ''Bearer '' @ ''payload.signature''
        \<and> \<not> sublist ''Bearer '' (''header.'' @ ''Bearer'')"
      by code_simp
    have "''header.Bearer payload.signature'' \<noteq> []" by simp
    from fact [OF this] here
    have "getClaims example_config example_library (KeyObject 7) (Some ''header.Bearer payload.signature'') =
        verify_token example_config example_library (KeyObject 7) (''header.'' @ ''payload.signature'')"
      by metis
    with accepted show ?thesis by simp
  qed
  have without: "getClaims example_config example_library (KeyObject 7) (Some ''Token abc'') =
     verify_token example_config example_library (KeyObject 7) ''Token abc''"
  proof -
    have absent: "\<not> sublist ''Bearer '' ''Token abc''" by code_simp
    have "''Token abc'' \<noteq> []" by simp
    from fact [OF this] absent show ?thesis by simp
  qed
  from first inside without show ?thesis by simp
qed

text \<open>
  C10 as stated fails: the empty string is a present header, and a library that
  accepts every token would accept the empty token, yet \<open>getClaims\<close> rejects the header
  as missing before any verification.
\<close>

theorem getClaims_empty_header:
  "verify_token example_config
     (example_library\<lparr>JWT_verify := (\<lambda>token k.
        Some [(''https://hasura.io/jwt/claims'', JObj example_claims)])\<rparr>)
     (KeyObject 7) (replace_first ''Bearer '' [] []) = Inr (JObj example_claims)
   \<and> getClaims example_config
     (example_library\<lparr>JWT_verify := (\<lambda>token k.
        Some [(''https://hasura.io/jwt/claims'', JObj example_claims)])\<rparr>)
     (KeyObject 7) (Some []) = Inl (Error ''Missing Authorization header.'')"
  by (simp add: getClaims_def verify_token_def try_claims_def obj_get_def Object_prototype_def example_config_def)

end
